theory Spec2Isabelle
  imports Complex_Main
begin

section \<open>Attribute values and their string form\<close>

text \<open>
  The values a parsed feature carries in \<^verbatim>\<open>feature.id\<close> and in its property bag: strings
  and numbers, \<^verbatim>\<open>null\<close>, booleans, and \<^verbatim>\<open>undefined\<close> for a key that is not there. A
  numeric attribute is an integer, of a magnitude below \<^verbatim>\<open>10^21\<close>, where \<^verbatim>\<open>String\<close> writes
  a number in decimal digits (from there on it writes an exponent); a string is the
  sequence of its code units, all below 256.
\<close>

datatype jsval = JUndefined | JNull | JBool bool | JNum int | JStr string

definition digit :: "nat \<Rightarrow> char" where
  "digit d = ''0123456789'' ! d"

fun string_of_nat :: "nat \<Rightarrow> string" where
  "string_of_nat n =
     (if n < 10 then [digit n] else string_of_nat (n div 10) @ [digit (n mod 10)])"

declare string_of_nat.simps [simp del]

definition string_of_int :: "int \<Rightarrow> string" where
  "string_of_int k =
     (if k < 0 then CHR ''-'' # string_of_nat (nat (- k)) else string_of_nat (nat k))"

text \<open>\<^verbatim>\<open>String(v)\<close>, also what a template literal does to each \<^verbatim>\<open>${v}\<close>.\<close>

fun String_val :: "jsval \<Rightarrow> string" where
  "String_val JUndefined = ''undefined''"
| "String_val JNull = ''null''"
| "String_val (JBool b) = (if b then ''true'' else ''false'')"
| "String_val (JNum k) = string_of_int k"
| "String_val (JStr s) = s"

text \<open>
  \<^verbatim>\<open>s.trim()\<close> strips white space and line terminators from both ends: below 256 these
  are U+0009 to U+000D, U+0020 and U+00A0.
\<close>

definition is_space :: "char \<Rightarrow> bool" where
  "is_space c = (c \<in> set [CHR 0x09, CHR 0x0A, CHR 0x0B, CHR 0x0C, CHR 0x0D, CHR 0x20, CHR 0xA0])"

definition trim :: "string \<Rightarrow> string" where
  "trim s = rev (dropWhile is_space (rev (dropWhile is_space s)))"

text \<open>Truthiness, as \<^verbatim>\<open>&&\<close> and \<^verbatim>\<open>if\<close> test it.\<close>

fun truthy :: "jsval \<Rightarrow> bool" where
  "truthy JUndefined = False"
| "truthy JNull = False"
| "truthy (JBool b) = b"
| "truthy (JNum k) = (k \<noteq> 0)"
| "truthy (JStr s) = (s \<noteq> [])"


section \<open>Geometries\<close>

text \<open>
  The \<^verbatim>\<open>coordinates\<close> of a geometry are nested arrays whose innermost arrays are
  positions \<^verbatim>\<open>[x, y, ...]\<close> of two or more numbers: \<open>Pos x y\<close> is such a position (the
  code never reads past index 1), \<open>Arr cs\<close> any other array. A Point has a \<open>Pos\<close>, a
  LineString an \<open>Arr\<close> of \<open>Pos\<close>, a Polygon an \<open>Arr\<close> of rings, a MultiPolygon an
  \<open>Arr\<close> of polygons; nothing ties the depth to the \<^verbatim>\<open>type\<close> string. A geometry without
  the member (a GeometryCollection has \<^verbatim>\<open>geometries\<close> instead) has \<open>None\<close>.

  Coordinates are real numbers; those of a parsed file are numbers of the binary64
  format, and the arithmetic on them rounds as the program's does.
\<close>

datatype coords = Pos real real | Arr "coords list"

record geometry =
  gtype :: string
  coordinates :: "coords option"

text \<open>
  A feature record: \<open>fid\<close> is \<^verbatim>\<open>feature.id\<close>, \<open>properties\<close> is \<open>None\<close> when the member
  is absent or \<^verbatim>\<open>null\<close>, and so is \<open>geometry\<close>.
\<close>

record feature =
  fid :: jsval
  properties :: "(string \<rightharpoonup> jsval) option"
  geometry :: "geometry option"

datatype error = TypeError


section \<open>Identifier and label of a parcel\<close>

text \<open>\<^verbatim>\<open>feature.properties || {}\<close>, and \<^verbatim>\<open>props.KEY\<close> on the result.\<close>

definition props_of :: "feature \<Rightarrow> (string \<rightharpoonup> jsval)" where
  "props_of feature = (case properties feature of None \<Rightarrow> Map.empty | Some m \<Rightarrow> m)"

definition get_prop :: "(string \<rightharpoonup> jsval) \<Rightarrow> string \<Rightarrow> jsval" where
  "get_prop props k = (case props k of None \<Rightarrow> JUndefined | Some v \<Rightarrow> v)"

text \<open>The local \<^verbatim>\<open>candidates\<close> of \<^verbatim>\<open>getParcelId\<close>: the twelve reads, filtered.\<close>

definition candidates :: "feature \<Rightarrow> jsval list" where
  "candidates feature =
     (let props = props_of feature
      in filter (\<lambda>v. v \<noteq> JUndefined \<and> v \<noteq> JNull \<and> trim (String_val v) \<noteq> '''')
           [fid feature,
            get_prop props ''PARCEL_ID'',
            get_prop props ''PARCELID'',
            get_prop props ''PARCEL'',
            get_prop props ''LOTPLAN'',
            get_prop props ''LOT_PLAN'',
            get_prop props ''LOT'',
            get_prop props ''PLAN'',
            get_prop props ''OBJECTID'',
            get_prop props ''ObjectID'',
            get_prop props ''ID'',
            get_prop props ''Id''])"

definition getParcelId :: "feature \<Rightarrow> nat \<Rightarrow> string" where
  "getParcelId feature index =
     (if length (candidates feature) \<noteq> 0 then String_val (candidates feature ! 0)
      else ''parcel_'' @ string_of_nat index)"

definition getParcelLabel :: "feature \<Rightarrow> string \<Rightarrow> string" where
  "getParcelLabel feature pid =
     (let props = props_of feature;
          lot = get_prop props ''LOT'';
          plan = get_prop props ''PLAN''
      in if truthy lot \<and> truthy plan then String_val lot @ ''/'' @ String_val plan else pid)"

text \<open>
  The identifier and the label the map layer gives a parcel, in \<^verbatim>\<open>onEachFeature\<close>: the
  callback has no position to pass and passes 0.
\<close>

definition onEachFeature :: "feature \<Rightarrow> string \<times> string" where
  "onEachFeature feature =
     (let pid = getParcelId feature 0;
          label = getParcelLabel feature pid
      in (pid, label))"


section \<open>Snapping helpers\<close>

record latlng =
  lat :: real
  lng :: real

type_synonym point = "real \<times> real"

definition latLngToPoint :: "latlng \<Rightarrow> point" where
  "latLngToPoint ll = (lng ll, lat ll)"

subsection \<open>Bounding box\<close>

text \<open>
  The running minima and maxima start at \<^verbatim>\<open>Infinity\<close> and \<^verbatim>\<open>-Infinity\<close> and stay there
  when no position is met.
\<close>

datatype ext = NegInf | Fin real | PosInf

fun ext_min :: "ext \<Rightarrow> real \<Rightarrow> ext" where
  "ext_min NegInf r = NegInf"
| "ext_min (Fin a) r = Fin (min a r)"
| "ext_min PosInf r = Fin r"

fun ext_max :: "ext \<Rightarrow> real \<Rightarrow> ext" where
  "ext_max NegInf r = Fin r"
| "ext_max (Fin a) r = Fin (max a r)"
| "ext_max PosInf r = PosInf"

fun lt_ext :: "real \<Rightarrow> ext \<Rightarrow> bool" where
  "lt_ext r NegInf = False"
| "lt_ext r (Fin a) = (r < a)"
| "lt_ext r PosInf = True"

fun gt_ext :: "real \<Rightarrow> ext \<Rightarrow> bool" where
  "gt_ext r NegInf = True"
| "gt_ext r (Fin a) = (r > a)"
| "gt_ext r PosInf = False"

type_synonym bbox = "ext \<times> ext \<times> ext \<times> ext"

text \<open>
  \<^verbatim>\<open>walk(c)\<close>: a position has numbers at 0 and 1 and feeds the box; an array of arrays
  has objects there and is walked element by element.
\<close>

fun walk :: "coords \<Rightarrow> bbox \<Rightarrow> bbox" where
  "walk (Pos x y) (minX, minY, maxX, maxY) =
     (ext_min minX x, ext_min minY y, ext_max maxX x, ext_max maxY y)"
| "walk (Arr cs) bb = fold walk cs bb"

text \<open>\<^verbatim>\<open>walk(undefined)\<close> reads \<^verbatim>\<open>c[0]\<close> of \<^verbatim>\<open>undefined\<close> and throws.\<close>

definition bboxOfCoords :: "coords option \<Rightarrow> error + bbox" where
  "bboxOfCoords coords =
     (case coords of
        None \<Rightarrow> Inl TypeError
      | Some c \<Rightarrow> Inr (walk c (PosInf, PosInf, NegInf, NegInf)))"

subsection \<open>Binary64 rounding\<close>

text \<open>
  The program's numbers are binary64. Every \<^verbatim>\<open>-\<close>, \<^verbatim>\<open>*\<close>, \<^verbatim>\<open>/\<close> and \<^verbatim>\<open>+\<close> gives the exact
  result rounded to the nearest number with 53 significant bits, to the one with an even
  last bit in a tie; comparisons, \<^verbatim>\<open>Math.min\<close> and \<^verbatim>\<open>Math.max\<close> are exact. \<open>round64\<close> is
  this rounding for magnitudes in the normal range of the format (from \<^verbatim>\<open>2^-1022\<close> up to
  \<^verbatim>\<open>2^1024\<close>, where coordinates in degrees and what is computed from them stay): overflow
  to \<^verbatim>\<open>Infinity\<close> and the wider spacing of subnormal numbers are not modelled.
  \<open>ulp x\<close> is the spacing of the numbers of the format around \<open>x\<close>, which is
  \<^verbatim>\<open>2^(e-52)\<close> where \<^verbatim>\<open>2^e <= |x| < 2^(e+1)\<close>; \<open>ilog2_up\<close> finds \<open>e\<close> for \<^verbatim>\<open>|x| >= 1\<close>
  and \<open>ilog2_down\<close> finds \<open>-e\<close> below. A real \<open>x\<close> is a number of the format when
  \<open>round64 x = x\<close>.
\<close>

function ilog2_up :: "real \<Rightarrow> nat" where
  "ilog2_up x = (if x < 2 then 0 else Suc (ilog2_up (x / 2)))"
  by pat_completeness auto
termination
proof (relation "measure (\<lambda>x. nat \<lfloor>x\<rfloor>)")
  show "wf (measure (\<lambda>x::real. nat \<lfloor>x\<rfloor>))" by simp
  fix x :: real assume "\<not> x < 2"
  then have "\<lfloor>x / 2\<rfloor> < \<lfloor>x\<rfloor>" "0 < \<lfloor>x\<rfloor>" by linarith+
  then show "(x / 2, x) \<in> measure (\<lambda>x. nat \<lfloor>x\<rfloor>)" by simp
qed

function ilog2_down :: "real \<Rightarrow> nat" where
  "ilog2_down x = (if x \<le> 0 \<or> 1 \<le> x then 0 else Suc (ilog2_down (2 * x)))"
  by pat_completeness auto
termination
proof (relation "measure (\<lambda>x. nat \<lceil>1 / x\<rceil>)")
  show "wf (measure (\<lambda>x::real. nat \<lceil>1 / x\<rceil>))" by simp
  fix x :: real assume "\<not> (x \<le> 0 \<or> 1 \<le> x)"
  then have x: "0 < x" "x < 1" by simp_all
  define t where "t = 1 / x"
  from x have t: "1 < t" by (simp add: t_def)
  have h: "1 / (2 * x) = t / 2" by (simp add: t_def)
  from t have two: "2 \<le> \<lceil>t\<rceil>" by linarith
  have c: "t \<le> of_int \<lceil>t\<rceil>" by linarith
  from two have "(2::real) \<le> of_int \<lceil>t\<rceil>"
    using of_int_le_iff[of 2 "\<lceil>t\<rceil>", where ?'a = real] by simp
  with c have "t / 2 \<le> of_int \<lceil>t\<rceil> - 1" by linarith
  then have "t / 2 \<le> of_int (\<lceil>t\<rceil> - 1)" by simp
  then have "\<lceil>t / 2\<rceil> \<le> \<lceil>t\<rceil> - 1" by (simp only: ceiling_le_iff)
  with two have "\<lceil>t / 2\<rceil> < \<lceil>t\<rceil>" "0 < \<lceil>t\<rceil>" by simp_all
  then have "\<lceil>1 / (2 * x)\<rceil> < \<lceil>1 / x\<rceil>" "0 < \<lceil>1 / x\<rceil>"
    unfolding h by (simp_all add: t_def)
  then show "(2 * x, x) \<in> measure (\<lambda>x. nat \<lceil>1 / x\<rceil>)" by simp
qed

declare ilog2_up.simps [simp del] ilog2_down.simps [simp del]

definition ulp :: "real \<Rightarrow> real" where
  "ulp x = (if 1 \<le> \<bar>x\<bar> then 2 ^ ilog2_up \<bar>x\<bar> / 2 ^ 52 else 1 / (2 ^ ilog2_down \<bar>x\<bar> * 2 ^ 52))"

definition round_even :: "real \<Rightarrow> int" where
  "round_even q =
     (let f = \<lfloor>q\<rfloor>; d = q - of_int f
      in if d < 1 / 2 then f else if 1 / 2 < d then f + 1 else if even f then f else f + 1)"

definition round64 :: "real \<Rightarrow> real" where
  "round64 x = (if x = 0 then 0 else ulp x * of_int (round_even (x / ulp x)))"

subsection \<open>Ray casting\<close>

text \<open>
  A number as the ray casting meets it: \<open>None\<close> is \<^verbatim>\<open>NaN\<close>, which is what \<^verbatim>\<open>undefined\<close>
  becomes in a comparison with a number and in arithmetic. Every comparison with
  \<^verbatim>\<open>NaN\<close> is false and every operation on it gives \<^verbatim>\<open>NaN\<close>; on numbers an operation
  gives the rounded result. The literal \<^verbatim>\<open>1e-12\<close> is the number of the format nearest to
  one part in \<^verbatim>\<open>10^12\<close>.
\<close>

type_synonym jsnum = "real option"

definition js_gt :: "jsnum \<Rightarrow> jsnum \<Rightarrow> bool" where
  "js_gt a b = (case (a, b) of (Some p, Some q) \<Rightarrow> p > q | _ \<Rightarrow> False)"

definition js_lt :: "jsnum \<Rightarrow> jsnum \<Rightarrow> bool" where
  "js_lt a b = (case (a, b) of (Some p, Some q) \<Rightarrow> p < q | _ \<Rightarrow> False)"

definition js_sub :: "jsnum \<Rightarrow> jsnum \<Rightarrow> jsnum" where
  "js_sub a b = (case (a, b) of (Some p, Some q) \<Rightarrow> Some (round64 (p - q)) | _ \<Rightarrow> None)"

definition js_mul :: "jsnum \<Rightarrow> jsnum \<Rightarrow> jsnum" where
  "js_mul a b = (case (a, b) of (Some p, Some q) \<Rightarrow> Some (round64 (p * q)) | _ \<Rightarrow> None)"

definition js_add :: "jsnum \<Rightarrow> jsnum \<Rightarrow> jsnum" where
  "js_add a b = (case (a, b) of (Some p, Some q) \<Rightarrow> Some (round64 (p + q)) | _ \<Rightarrow> None)"

text \<open>\<^verbatim>\<open>a || d\<close> for a number \<open>a\<close>: zero and \<^verbatim>\<open>NaN\<close> are falsy.\<close>

definition js_or :: "jsnum \<Rightarrow> real \<Rightarrow> real" where
  "js_or a d = (case a of None \<Rightarrow> d | Some p \<Rightarrow> if p = 0 then d else p)"

text \<open>Division by a number that is neither zero nor \<^verbatim>\<open>NaN\<close>.\<close>

definition js_div :: "jsnum \<Rightarrow> real \<Rightarrow> jsnum" where
  "js_div a q = (case a of None \<Rightarrow> None | Some p \<Rightarrow> Some (round64 (p / q)))"

text \<open>
  An array where a number is expected goes through its string form: the elements'
  string forms joined by commas. The empty string reads as 0, and a string with a comma,
  as every position has, as \<^verbatim>\<open>NaN\<close>; these are the only two cases. Where the array is
  the right operand of \<^verbatim>\<open>+\<close> the sum is the concatenation of two strings, which the
  comparison reads back as a number: the left operand for the empty string, \<^verbatim>\<open>NaN\<close>
  for one with a comma, as the sum of the numbers is.
\<close>

fun arrayToNumber :: "coords \<Rightarrow> jsnum" where
  "arrayToNumber (Pos x y) = None"
| "arrayToNumber (Arr []) = Some 0"
| "arrayToNumber (Arr [c]) = arrayToNumber c"
| "arrayToNumber (Arr (c # d # cs)) = None"

text \<open>
  \<^verbatim>\<open>v[0]\<close> and \<^verbatim>\<open>v[1]\<close> of a ring element \<open>v\<close>, as numbers: \<^verbatim>\<open>undefined\<close> past the end
  of an array.
\<close>

fun elem0 :: "coords \<Rightarrow> jsnum" where
  "elem0 (Pos x y) = Some x"
| "elem0 (Arr []) = None"
| "elem0 (Arr (c # cs)) = arrayToNumber c"

fun elem1 :: "coords \<Rightarrow> jsnum" where
  "elem1 (Pos x y) = Some y"
| "elem1 (Arr []) = None"
| "elem1 (Arr [c]) = None"
| "elem1 (Arr (c # d # cs)) = arrayToNumber d"

definition intersect :: "point \<Rightarrow> coords \<Rightarrow> coords \<Rightarrow> bool" where
  "intersect pt vi vj =
     (let x = Some (fst pt); y = Some (snd pt);
          xi = elem0 vi; yi = elem1 vi;
          xj = elem0 vj; yj = elem1 vj
      in (js_gt yi y \<noteq> js_gt yj y) \<and>
         js_lt x (js_add
           (js_div (js_mul (js_sub xj xi) (js_sub y yi)) (js_or (js_sub yj yi) (round64 (1 / 10 ^ 12))))
           xi))"

function pointInRing_loop :: "point \<Rightarrow> coords list \<Rightarrow> nat \<Rightarrow> nat \<Rightarrow> bool \<Rightarrow> bool" where
  "pointInRing_loop pt ring i j inside =
     (if i < length ring
      then pointInRing_loop pt ring (i + 1) i
             (if intersect pt (ring ! i) (ring ! j) then \<not> inside else inside)
      else inside)"
  by pat_completeness auto
termination
  by (relation "measure (\<lambda>(pt, ring, i, j, inside). length ring - i)") auto

declare pointInRing_loop.simps [simp del]

text \<open>
  A position taken for a ring has numbers for elements: their \<^verbatim>\<open>[0]\<close> and \<^verbatim>\<open>[1]\<close> are
  \<^verbatim>\<open>undefined\<close>, no edge is crossed. In a ring of length 0 the loop does not run, and
  \<open>j\<close> is not read.
\<close>

fun pointInRing :: "point \<Rightarrow> coords \<Rightarrow> bool" where
  "pointInRing pt (Pos x y) = False"
| "pointInRing pt (Arr ring) = pointInRing_loop pt ring 0 (length ring - 1) False"

fun holes_loop :: "point \<Rightarrow> coords list \<Rightarrow> bool" where
  "holes_loop pt [] = True"
| "holes_loop pt (h # hs) = (if pointInRing pt h then False else holes_loop pt hs)"

text \<open>
  \<^verbatim>\<open>pointInPolygon(pt, polygonCoords)\<close>. For a position, \<^verbatim>\<open>polygonCoords[0]\<close> is a number:
  it has no length, so \<^verbatim>\<open>pointInRing\<close> returns false without a turn of its loop.
\<close>

fun pointInPolygon :: "point \<Rightarrow> coords option \<Rightarrow> bool" where
  "pointInPolygon pt None = False"
| "pointInPolygon pt (Some (Pos x y)) = False"
| "pointInPolygon pt (Some (Arr [])) = False"
| "pointInPolygon pt (Some (Arr (outer # holes))) =
     (if \<not> pointInRing pt outer then False else holes_loop pt holes)"

text \<open>
  \<^verbatim>\<open>pointInGeometry(pt, geom)\<close>. \<^verbatim>\<open>geom.coordinates.some\<close> throws when there are no
  coordinates; on a position its elements are numbers, for which \<^verbatim>\<open>pointInPolygon\<close>
  returns false at its first test.
\<close>

definition pointInGeometry :: "point \<Rightarrow> geometry option \<Rightarrow> error + bool" where
  "pointInGeometry pt geom =
     (case geom of
        None \<Rightarrow> Inr False
      | Some g \<Rightarrow>
          if gtype g = ''Polygon'' then Inr (pointInPolygon pt (coordinates g))
          else if gtype g = ''MultiPolygon'' then
            (case coordinates g of
               None \<Rightarrow> Inl TypeError
             | Some (Pos x y) \<Rightarrow> Inr False
             | Some (Arr polys) \<Rightarrow> Inr (list_ex (\<lambda>poly. pointInPolygon pt (Some poly)) polys))
          else Inr False)"


section \<open>The parcel index and the snap\<close>

record app_state =
  cadastralLoaded :: bool
  cadastralFeatures :: "feature list"
  snapEnabled :: bool

text \<open>
  What \<^verbatim>\<open>loadCadastralOverlay\<close> does to the state when the file is fetched and parsed and
  the map layer is built from it: every feature is copied with its identifier under
  \<^verbatim>\<open>__pid\<close>, in the order of the file.
\<close>

definition loadCadastralOverlay :: "feature list \<Rightarrow> app_state \<Rightarrow> app_state" where
  "loadCadastralOverlay features st =
     st\<lparr>cadastralFeatures :=
          map (\<lambda>(i, f). f\<lparr>properties := Some ((props_of f)(''__pid'' \<mapsto> JStr (getParcelId f i)))\<rparr>)
            (enumerate 0 features),
        cadastralLoaded := True\<rparr>"

definition outside :: "point \<Rightarrow> bbox \<Rightarrow> bool" where
  "outside pt bb =
     (case bb of (minX, minY, maxX, maxY) \<Rightarrow>
        lt_ext (fst pt) minX \<or> gt_ext (fst pt) maxX \<or> lt_ext (snd pt) minY \<or> gt_ext (snd pt) maxY)"

fun findParcel_loop :: "point \<Rightarrow> feature list \<Rightarrow> error + feature option" where
  "findParcel_loop pt [] = Inr None"
| "findParcel_loop pt (f # fs) =
     (case geometry f of
        None \<Rightarrow> findParcel_loop pt fs
      | Some g \<Rightarrow>
          (case bboxOfCoords (coordinates g) of
             Inl e \<Rightarrow> Inl e
           | Inr bb \<Rightarrow>
               if outside pt bb then findParcel_loop pt fs
               else (case pointInGeometry pt (Some g) of
                       Inl e \<Rightarrow> Inl e
                     | Inr inside \<Rightarrow> if inside then Inr (Some f) else findParcel_loop pt fs)))"

definition findParcelFeatureAtLatLng :: "app_state \<Rightarrow> latlng \<Rightarrow> error + feature option" where
  "findParcelFeatureAtLatLng st latlng =
     (if \<not> cadastralLoaded st \<or> length (cadastralFeatures st) = 0 then Inr None
      else findParcel_loop (latLngToPoint latlng) (cadastralFeatures st))"

text \<open>
  A drawn layer, as far as \<^verbatim>\<open>layerCentroidLatLng\<close> looks at it: \<open>getLatLng\<close> is the
  result of the method of that name where the layer has one (a marker, a circle),
  \<open>getBoundsCenter\<close> that of \<^verbatim>\<open>getBounds().getCenter()\<close> where it has \<^verbatim>\<open>getBounds\<close>.
\<close>

record layer =
  getLatLng :: "latlng option"
  getBoundsCenter :: "latlng option"

definition layerCentroidLatLng :: "layer \<Rightarrow> latlng option" where
  "layerCentroidLatLng layer =
     (case getLatLng layer of
        Some ll \<Rightarrow> Some ll
      | None \<Rightarrow> (case getBoundsCenter layer of Some c \<Rightarrow> Some c | None \<Rightarrow> None))"

text \<open>
  The test the handler of \<^verbatim>\<open>L.Draw.Event.CREATED\<close> puts on what the search returned:
  a feature, with a geometry, of the kind \<^verbatim>\<open>Polygon\<close> or \<^verbatim>\<open>MultiPolygon\<close>.
\<close>

definition eligible :: "feature option \<Rightarrow> bool" where
  "eligible parcelFeature =
     (case parcelFeature of
        None \<Rightarrow> False
      | Some f \<Rightarrow>
          (case geometry f of
             None \<Rightarrow> False
           | Some g \<Rightarrow> gtype g = ''Polygon'' \<or> gtype g = ''MultiPolygon''))"

text \<open>
  The snap of the handler, up to the parcel feature it hands to
  \<^verbatim>\<open>featureToEditableLeafletLayer\<close>: \<open>None\<close> when the drawn layer is kept.
\<close>

definition resolve :: "app_state \<Rightarrow> layer \<Rightarrow> error + feature option" where
  "resolve st layer =
     (if snapEnabled st then
        (case layerCentroidLatLng layer of
           None \<Rightarrow> Inr None
         | Some centroid \<Rightarrow>
             (case findParcelFeatureAtLatLng st centroid of
                Inl e \<Rightarrow> Inl e
              | Inr parcelFeature \<Rightarrow>
                  if eligible parcelFeature then Inr parcelFeature else Inr None))
      else Inr None)"


section \<open>Notions the properties are stated with\<close>

text \<open>The state the script starts in.\<close>

definition initial_state :: app_state where
  "initial_state = \<lparr>cadastralLoaded = False, cadastralFeatures = [], snapEnabled = False\<rparr>"

text \<open>The identifiers the loaded features carry, in index order.\<close>

definition parcel_ids :: "app_state \<Rightarrow> jsval list" where
  "parcel_ids st = map (\<lambda>f. get_prop (props_of f) ''__pid'') (cadastralFeatures st)"

text \<open>
  The rule for one polygon in the words of the specification: inside ring 0 and inside
  none of the rings after it; nothing is inside an empty list of rings.
\<close>

definition polygon_contains :: "point \<Rightarrow> coords \<Rightarrow> bool" where
  "polygon_contains pt poly =
     (case poly of
        Arr (outer # holes) \<Rightarrow> pointInRing pt outer \<and> (\<forall>h\<in>set holes. \<not> pointInRing pt h)
      | _ \<Rightarrow> False)"

text \<open>
  What one turn of the loop of \<^verbatim>\<open>findParcelFeatureAtLatLng\<close> does with a feature: it
  throws when the geometry has no coordinates, and it returns the feature when the point
  passes the box test and the geometry test.
\<close>

definition raises :: "feature \<Rightarrow> bool" where
  "raises f = (case geometry f of None \<Rightarrow> False | Some g \<Rightarrow> coordinates g = None)"

definition hit :: "point \<Rightarrow> feature \<Rightarrow> bool" where
  "hit pt f =
     (case geometry f of
        None \<Rightarrow> False
      | Some g \<Rightarrow>
          (case bboxOfCoords (coordinates g) of
             Inl e \<Rightarrow> False
           | Inr bb \<Rightarrow> \<not> outside pt bb \<and> pointInGeometry pt (Some g) = Inr True))"

text \<open>
  The crossings of the ray along a path: from \<open>prev\<close> to the first vertex, from each
  vertex to the next. The loop of \<^verbatim>\<open>pointInRing\<close> walks this path from the last vertex
  of the ring.
\<close>

fun chain :: "point \<Rightarrow> coords \<Rightarrow> coords list \<Rightarrow> bool" where
  "chain pt prev [] = False"
| "chain pt prev (v # vs) = (intersect pt v prev \<noteq> chain pt v vs)"

fun is_position :: "coords \<Rightarrow> bool" where
  "is_position (Pos x y) = True"
| "is_position (Arr cs) = False"

text \<open>
  The ray casting with the denominator \<^verbatim>\<open>yj - yi\<close> as it is, in place of
  \<^verbatim>\<open>(yj - yi) || 1e-12\<close>. \<^verbatim>\<open>&&\<close> evaluates the quotient only when the two ends of the
  edge lie on different sides of the ray; \<open>None\<close> says that a division by zero was
  evaluated. A denominator that is \<^verbatim>\<open>NaN\<close> makes the quotient \<^verbatim>\<open>NaN\<close> and the
  comparison false.
\<close>

definition intersect_exact :: "point \<Rightarrow> coords \<Rightarrow> coords \<Rightarrow> bool option" where
  "intersect_exact pt vi vj =
     (let x = Some (fst pt); y = Some (snd pt);
          xi = elem0 vi; yi = elem1 vi;
          xj = elem0 vj; yj = elem1 vj
      in if js_gt yi y \<noteq> js_gt yj y then
           (case js_sub yj yi of
              None \<Rightarrow> Some False
            | Some d \<Rightarrow>
                if d = 0 then None
                else Some (js_lt x (js_add
                       (js_div (js_mul (js_sub xj xi) (js_sub y yi)) d) xi)))
         else Some False)"

function pointInRing_exact_loop ::
  "point \<Rightarrow> coords list \<Rightarrow> nat \<Rightarrow> nat \<Rightarrow> bool \<Rightarrow> bool option" where
  "pointInRing_exact_loop pt ring i j inside =
     (if i < length ring
      then (case intersect_exact pt (ring ! i) (ring ! j) of
              None \<Rightarrow> None
            | Some c \<Rightarrow>
                pointInRing_exact_loop pt ring (i + 1) i (if c then \<not> inside else inside))
      else Some inside)"
  by pat_completeness auto
termination
  by (relation "measure (\<lambda>(pt, ring, i, j, inside). length ring - i)") auto

declare pointInRing_exact_loop.simps [simp del]

fun pointInRing_exact :: "point \<Rightarrow> coords \<Rightarrow> bool option" where
  "pointInRing_exact pt (Pos x y) = Some False"
| "pointInRing_exact pt (Arr ring) = pointInRing_exact_loop pt ring 0 (length ring - 1) False"













definition abscissa :: "point \<Rightarrow> coords \<Rightarrow> coords \<Rightarrow> jsnum" where
  "abscissa pt vi vj =
     js_add
       (js_div (js_mul (js_sub (elem0 vj) (elem0 vi)) (js_sub (Some (snd pt)) (elem1 vi)))
          (js_or (js_sub (elem1 vj) (elem1 vi)) (round64 (1 / 10 ^ 12))))
       (elem0 vi)"

definition within_edge :: "point \<Rightarrow> coords \<Rightarrow> coords \<Rightarrow> bool" where
  "within_edge pt vi vj =
     (case (elem0 vi, elem0 vj, abscissa pt vi vj) of
        (Some a, Some b, Some r) \<Rightarrow> min a b \<le> r \<and> r \<le> max a b
      | _ \<Rightarrow> False)"




text \<open>
  The loop of the search without the line that skips on the box test, and with that line
  cut down to its two tests on \<^verbatim>\<open>pt[0]\<close>.
\<close>

fun findParcel_noskip_loop :: "point \<Rightarrow> feature list \<Rightarrow> error + feature option" where
  "findParcel_noskip_loop pt [] = Inr None"
| "findParcel_noskip_loop pt (f # fs) =
     (case geometry f of
        None \<Rightarrow> findParcel_noskip_loop pt fs
      | Some g \<Rightarrow>
          (case bboxOfCoords (coordinates g) of
             Inl e \<Rightarrow> Inl e
           | Inr bb \<Rightarrow>
               (case pointInGeometry pt (Some g) of
                  Inl e \<Rightarrow> Inl e
                | Inr inside \<Rightarrow>
                    if inside then Inr (Some f) else findParcel_noskip_loop pt fs)))"










definition bare :: feature where
  "bare = \<lparr>fid = JUndefined, properties = Some Map.empty, geometry = None\<rparr>"


section \<open>Identifiers and labels\<close>

lemma string_of_nat_nonempty: "string_of_nat n \<noteq> []"
  by (subst string_of_nat.simps) simp

lemma digit_inj: "a < 10 \<Longrightarrow> b < 10 \<Longrightarrow> digit a = digit b \<Longrightarrow> a = b"
proof -
  assume a: "a < 10" and b: "b < 10" and e: "digit a = digit b"
  have A: "a \<in> {0, 1, 2, 3, 4, 5, 6, 7, 8, 9}" using a by auto
  have B: "b \<in> {0, 1, 2, 3, 4, 5, 6, 7, 8, 9}" using b by auto
  show ?thesis using A B e by (auto simp: digit_def)
qed

lemma string_of_nat_inj: "string_of_nat m = string_of_nat n \<Longrightarrow> m = n"
proof (induction m arbitrary: n rule: string_of_nat.induct)
  case (1 m)
  show ?case
  proof (cases "m < 10")
    case True
    show ?thesis
    proof (cases "n < 10")
      case True
      with \<open>m < 10\<close> "1.prems" show ?thesis
        by (simp add: string_of_nat.simps[of m] string_of_nat.simps[of n] digit_inj)
    next
      case False
      with \<open>m < 10\<close> "1.prems" show ?thesis
        using string_of_nat_nonempty[of "n div 10"]
        by (simp add: string_of_nat.simps[of m] string_of_nat.simps[of n])
    qed
  next
    case False
    show ?thesis
    proof (cases "n < 10")
      case True
      with \<open>\<not> m < 10\<close> "1.prems" show ?thesis
        using string_of_nat_nonempty[of "m div 10"]
        by (simp add: string_of_nat.simps[of m] string_of_nat.simps[of n])
    next
      case nf: False
      from False nf "1.prems"
      have e: "string_of_nat (m div 10) = string_of_nat (n div 10)"
        "digit (m mod 10) = digit (n mod 10)"
        by (simp_all add: string_of_nat.simps[of m] string_of_nat.simps[of n])
      from "1.IH"[OF False e(1)] have d: "m div 10 = n div 10" .
      have "m mod 10 = n mod 10" using e(2) by (intro digit_inj) simp_all
      with d show ?thesis by (metis div_mult_mod_eq)
    qed
  qed
qed




text \<open>
  \<^verbatim>\<open>getParcelLabel\<close> on its own. When the properties have a truthy \<^verbatim>\<open>LOT\<close> and a truthy
  \<^verbatim>\<open>PLAN\<close>, the label is the one, a slash, the other; in every other case it is the
  string handed in as \<^verbatim>\<open>pid\<close>. \<^verbatim>\<open>LOT\<close> \<^verbatim>\<open>"12"\<close> with \<^verbatim>\<open>PLAN\<close> \<^verbatim>\<open>"DP4567"\<close> gives
  \<^verbatim>\<open>"12/DP4567"\<close>.
\<close>

lemma getParcelLabel_rule:
  "(properties f = Some m \<and> m ''LOT'' = Some l \<and> m ''PLAN'' = Some p \<and> truthy l \<and> truthy p
      \<longrightarrow> getParcelLabel f pid = String_val l @ ''/'' @ String_val p)
   \<and> (\<not> (\<exists>m l p. properties f = Some m \<and> m ''LOT'' = Some l \<and> m ''PLAN'' = Some p
              \<and> truthy l \<and> truthy p)
      \<longrightarrow> getParcelLabel f pid = pid)
   \<and> getParcelLabel
       \<lparr>fid = a, properties = Some [''LOT'' \<mapsto> JStr ''12'', ''PLAN'' \<mapsto> JStr ''DP4567''],
        geometry = g\<rparr> pid = ''12/DP4567''"
  by (auto simp: getParcelLabel_def props_of_def get_prop_def split: option.splits)

text \<open>A numeric lot is printed; the lot 0 is falsy and leaves the identifier.\<close>

lemma getParcelLabel_numeric_lot:
  "getParcelLabel
     \<lparr>fid = JUndefined, properties = Some [''LOT'' \<mapsto> JNum 12, ''PLAN'' \<mapsto> JStr ''DP4567''],
      geometry = None\<rparr> ''x'' = ''12/DP4567''
   \<and> getParcelLabel
     \<lparr>fid = JUndefined, properties = Some [''LOT'' \<mapsto> JNum 0, ''PLAN'' \<mapsto> JStr ''DP4567''],
      geometry = None\<rparr> ''0'' = ''0''"
  by (simp add: getParcelLabel_def props_of_def get_prop_def string_of_int_def
      string_of_nat.simps digit_def)

lemma parcel_ids_load:
  "parcel_ids (loadCadastralOverlay features st) =
     map (\<lambda>(i, f). JStr (getParcelId f i)) (enumerate 0 features)"
  by (simp add: parcel_ids_def loadCadastralOverlay_def props_of_def get_prop_def split_def)

lemma parcel_ids_nth:
  "i < length features \<Longrightarrow>
   parcel_ids (loadCadastralOverlay features st) ! i = JStr (getParcelId (features ! i) i)"
  by (simp add: parcel_ids_load nth_enumerate_eq)

text \<open>
  Claim C8 says that no two loaded parcels share an identifier. Two features whose first
  candidates have the same string form do: here a \<^verbatim>\<open>PARCEL_ID\<close> \<^verbatim>\<open>"7"\<close> and an \<^verbatim>\<open>id\<close> 7.
\<close>

theorem parcel_ids_not_distinct:
  "\<not> distinct (parcel_ids (loadCadastralOverlay
        [\<lparr>fid = JUndefined, properties = Some [''PARCEL_ID'' \<mapsto> JStr ''7''], geometry = None\<rparr>,
         \<lparr>fid = JNum 7, properties = None, geometry = None\<rparr>]
        initial_state))"
  by (simp add: parcel_ids_load enumerate_eq_zip getParcelId_def candidates_def props_of_def
      get_prop_def trim_def is_space_def string_of_int_def string_of_nat.simps digit_def upt_rec)

text \<open>
  Claim C8, amended. Two loaded parcels at different positions that both have no
  candidate, and so take their identifier from their position, have different
  identifiers.
\<close>

theorem fallback_ids_distinct:
  assumes "i < length features" and "j < length features" and "i \<noteq> j"
    and "candidates (features ! i) = []" and "candidates (features ! j) = []"
  shows "parcel_ids (loadCadastralOverlay features st) ! i
       \<noteq> parcel_ids (loadCadastralOverlay features st) ! j"
proof
  assume "parcel_ids (loadCadastralOverlay features st) ! i
        = parcel_ids (loadCadastralOverlay features st) ! j"
  with assms(1,2) have "getParcelId (features ! i) i = getParcelId (features ! j) j"
    by (simp add: parcel_ids_nth)
  with assms(4,5) have "string_of_nat i = string_of_nat j"
    by (simp add: getParcelId_def)
  then have "i = j" by (rule string_of_nat_inj)
  with assms(3) show False by simp
qed

theorem fallback_ids_distinct_witness:
  "parcel_ids (loadCadastralOverlay
        [\<lparr>fid = JUndefined, properties = None, geometry = None\<rparr>,
         \<lparr>fid = JStr '' '', properties = Some [''LOT'' \<mapsto> JNull], geometry = None\<rparr>]
        initial_state) ! 0
   \<noteq> parcel_ids (loadCadastralOverlay
        [\<lparr>fid = JUndefined, properties = None, geometry = None\<rparr>,
         \<lparr>fid = JStr '' '', properties = Some [''LOT'' \<mapsto> JNull], geometry = None\<rparr>]
        initial_state) ! 1"
  by (rule fallback_ids_distinct)
     (simp_all add: candidates_def props_of_def get_prop_def trim_def is_space_def)


text \<open>
  On the map layer the position is not used: there every parcel without a candidate has
  the identifier \<^verbatim>\<open>parcel_0\<close>.
\<close>

lemma onEachFeature_fallback:
  "candidates f = [] \<Longrightarrow> fst (onEachFeature f) = ''parcel_0''"
  by (simp add: onEachFeature_def getParcelId_def Let_def string_of_nat.simps digit_def)

text \<open>
  The label of the parcel at a position of the file is the one the callback of the map
  layer computes for its feature. It is \<^verbatim>\<open>LOT\<close>, a slash, \<^verbatim>\<open>PLAN\<close> where both are truthy,
  and the identifier the callback derived where the feature has a candidate.
\<close>

lemma onEachFeature_label:
  "snd (onEachFeature f) =
     (if truthy (get_prop (props_of f) ''LOT'') \<and> truthy (get_prop (props_of f) ''PLAN'')
      then String_val (get_prop (props_of f) ''LOT'') @ ''/''
           @ String_val (get_prop (props_of f) ''PLAN'')
      else getParcelId f 0)"
  by (simp add: onEachFeature_def getParcelLabel_def Let_def)

lemma label_with_candidate:
  "candidates f \<noteq> [] \<Longrightarrow>
   \<not> (truthy (get_prop (props_of f) ''LOT'') \<and> truthy (get_prop (props_of f) ''PLAN'')) \<Longrightarrow>
   snd (onEachFeature f) = getParcelId f i"
  by (auto simp: onEachFeature_label getParcelId_def)

text \<open>
  Claim C9 says that the label is \<^verbatim>\<open>LOT/PLAN\<close> where both are truthy, and the derived
  identifier otherwise. The callback derives the identifier it falls back to with the
  index 0, whatever the position of the feature: a parcel without a candidate, and
  without a truthy \<^verbatim>\<open>LOT\<close> and \<^verbatim>\<open>PLAN\<close>, at a position after the first has the label
  \<^verbatim>\<open>parcel_0\<close>, and this is not its identifier in the index, which is \<^verbatim>\<open>parcel_\<close> and the
  position.
\<close>

theorem label_is_not_identifier:
  "i < length features \<and> 0 < i \<and> candidates (features ! i) = []
     \<and> \<not> (truthy (get_prop (props_of (features ! i)) ''LOT'')
            \<and> truthy (get_prop (props_of (features ! i)) ''PLAN''))
   \<longrightarrow> snd (onEachFeature (features ! i)) = ''parcel_0''
       \<and> parcel_ids (loadCadastralOverlay features st) ! i = JStr (''parcel_'' @ string_of_nat i)
       \<and> JStr (snd (onEachFeature (features ! i)))
           \<noteq> parcel_ids (loadCadastralOverlay features st) ! i"
proof (intro impI)
  assume h: "i < length features \<and> 0 < i \<and> candidates (features ! i) = []
     \<and> \<not> (truthy (get_prop (props_of (features ! i)) ''LOT'')
            \<and> truthy (get_prop (props_of (features ! i)) ''PLAN''))"
  have z: "string_of_nat 0 = ''0''" by (simp add: string_of_nat.simps digit_def)
  from h have l: "snd (onEachFeature (features ! i)) = ''parcel_'' @ string_of_nat 0"
    by (auto simp: onEachFeature_label getParcelId_def)
  from h have p: "parcel_ids (loadCadastralOverlay features st) ! i
      = JStr (''parcel_'' @ string_of_nat i)"
    by (simp add: parcel_ids_nth getParcelId_def)
  have "string_of_nat 0 \<noteq> string_of_nat i"
  proof
    assume "string_of_nat 0 = string_of_nat i"
    then have "0 = i" by (rule string_of_nat_inj)
    with h show False by simp
  qed
  with l p z show "snd (onEachFeature (features ! i)) = ''parcel_0''
       \<and> parcel_ids (loadCadastralOverlay features st) ! i = JStr (''parcel_'' @ string_of_nat i)
       \<and> JStr (snd (onEachFeature (features ! i)))
           \<noteq> parcel_ids (loadCadastralOverlay features st) ! i"
    by simp
qed

text \<open>
  Two features with neither an \<^verbatim>\<open>id\<close> nor a property: the second has the label
  \<^verbatim>\<open>parcel_0\<close> and the identifier \<^verbatim>\<open>parcel_1\<close>.
\<close>

theorem label_is_not_identifier_witness:
  "snd (onEachFeature ([bare, bare] ! 1)) = ''parcel_0''
   \<and> parcel_ids (loadCadastralOverlay [bare, bare] initial_state) ! 1 = JStr ''parcel_1''"
proof -
  have c: "candidates bare = []"
    by (simp add: candidates_def bare_def props_of_def get_prop_def)
  have t: "\<not> (truthy (get_prop (props_of bare) ''LOT'') \<and> truthy (get_prop (props_of bare) ''PLAN''))"
    by (simp add: bare_def props_of_def get_prop_def)
  have o: "string_of_nat 1 = ''1''" by (simp add: string_of_nat.simps digit_def)
  from label_is_not_identifier [of 1 "[bare, bare]" initial_state] c t o
  show ?thesis by simp
qed


section \<open>Rounding\<close>

text \<open>
  The spacing around a number is positive and not above its magnitude, so a number that
  is not zero is not rounded to zero: a difference is zero only of equal numbers.
\<close>

lemma ilog2_up_le: "1 \<le> x \<Longrightarrow> 2 ^ ilog2_up x \<le> x"
proof (induction x rule: ilog2_up.induct)
  case (1 x)
  show ?case
  proof (cases "x < 2")
    case True
    with "1.prems" show ?thesis by (subst ilog2_up.simps) simp
  next
    case False
    then have "1 \<le> x / 2" by simp
    from "1.IH"[OF False this] False show ?thesis
      by (subst ilog2_up.simps) simp
  qed
qed

lemma ilog2_down_le: "0 < x \<Longrightarrow> 1 \<le> x * 2 ^ ilog2_down x"
proof (induction x rule: ilog2_down.induct)
  case (1 x)
  show ?case
  proof (cases "x \<le> 0 \<or> 1 \<le> x")
    case True
    with "1.prems" show ?thesis by (subst ilog2_down.simps) simp
  next
    case False
    with "1.prems" have "0 < 2 * x" by simp
    from "1.IH"[OF False this] False show ?thesis
      by (subst ilog2_down.simps) (simp add: mult.assoc mult.left_commute)
  qed
qed

lemma ulp_pos: "0 < ulp x"
  by (simp add: ulp_def)

lemma ulp_le: "x \<noteq> 0 \<Longrightarrow> ulp x \<le> \<bar>x\<bar>"
proof (cases "1 \<le> \<bar>x\<bar>")
  case True
  from ilog2_up_le[OF True] have "2 ^ ilog2_up \<bar>x\<bar> / 2 ^ 52 \<le> \<bar>x\<bar> / 2 ^ 52"
    by (simp add: divide_right_mono)
  also have "\<dots> \<le> \<bar>x\<bar>" by simp
  finally show ?thesis using True by (simp add: ulp_def)
next
  case False
  assume "x \<noteq> 0"
  then have p: "0 < \<bar>x\<bar>" by simp
  from ilog2_down_le[OF p] have "1 / 2 ^ ilog2_down \<bar>x\<bar> \<le> \<bar>x\<bar>"
    by (simp add: divide_le_eq)
  then have "1 / 2 ^ ilog2_down \<bar>x\<bar> / 2 ^ 52 \<le> \<bar>x\<bar> / 2 ^ 52"
    by (simp add: divide_right_mono)
  also have "\<dots> \<le> \<bar>x\<bar>" by simp
  finally show ?thesis using False by (simp add: ulp_def)
qed

lemma round_even_nonzero: "1 \<le> \<bar>q\<bar> \<Longrightarrow> round_even q \<noteq> 0"
proof -
  assume a: "1 \<le> \<bar>q\<bar>"
  show ?thesis
  proof (cases "0 \<le> q")
    case True
    with a have "1 \<le> \<lfloor>q\<rfloor>" by linarith
    then have "\<lfloor>q\<rfloor> \<noteq> 0" "\<lfloor>q\<rfloor> + 1 \<noteq> 0" by linarith+
    then show ?thesis by (simp add: round_even_def Let_def)
  next
    case False
    with a have q: "q \<le> - 1" by simp
    then have f: "\<lfloor>q\<rfloor> \<le> - 1" by linarith
    show ?thesis
    proof (cases "\<lfloor>q\<rfloor> = - 1")
      case True
      with q have "q - of_int \<lfloor>q\<rfloor> = 0" by linarith
      with True show ?thesis by (simp add: round_even_def Let_def)
    next
      case False
      with f have "\<lfloor>q\<rfloor> \<noteq> 0" "\<lfloor>q\<rfloor> + 1 \<noteq> 0" by linarith+
      then show ?thesis by (simp add: round_even_def Let_def)
    qed
  qed
qed

lemma round64_zero [simp]: "round64 0 = 0"
  by (simp add: round64_def)

lemma round64_eq_0_iff [simp]: "round64 x = 0 \<longleftrightarrow> x = 0"
proof
  assume r: "round64 x = 0"
  show "x = 0"
  proof (rule ccontr)
    assume n: "x \<noteq> 0"
    from ulp_le[OF n] ulp_pos[of x] have "1 \<le> \<bar>x / ulp x\<bar>" by (simp add: le_divide_eq)
    then have "round_even (x / ulp x) \<noteq> 0" by (rule round_even_nonzero)
    with n r ulp_pos[of x] show False by (simp add: round64_def)
  qed
qed simp


section \<open>Ray casting\<close>

lemmas r64 = round64_def ulp_def round_even_def ilog2_up.simps ilog2_down.simps Let_def

lemmas ray_eval = pointInRing_loop.simps intersect_def js_gt_def js_lt_def js_sub_def
  js_mul_def js_add_def js_or_def js_div_def r64

lemma loop_chain:
  "i \<le> length ring \<Longrightarrow>
   pointInRing_loop pt ring i j inside = (inside \<noteq> chain pt (ring ! j) (drop i ring))"
proof (induction pt ring i j inside rule: pointInRing_loop.induct)
  case (1 pt ring i j inside)
  show ?case
  proof (cases "i < length ring")
    case True
    then have d: "drop i ring = ring ! i # drop (i + 1) ring"
      by (simp add: Cons_nth_drop_Suc)
    from True have "i + 1 \<le> length ring" by simp
    from "1.IH"[OF True this] True show ?thesis
      by (subst pointInRing_loop.simps) (auto simp: d)
  next
    case False
    with "1.prems" show ?thesis
      by (subst pointInRing_loop.simps) simp
  qed
qed

lemma pointInRing_chain:
  "ring \<noteq> [] \<Longrightarrow> pointInRing pt (Arr ring) = chain pt (last ring) ring"
  by (simp add: loop_chain last_conv_nth)

lemma chain_append:
  "chain pt prev (xs @ ys) = (chain pt prev xs \<noteq> chain pt (last (prev # xs)) ys)"
  by (induction xs arbitrary: prev) auto

lemma intersect_same: "\<not> intersect pt v v"
  by (simp add: intersect_def Let_def)

text \<open>
  Claim C7. A ring gives the same answer with a copy of its first vertex appended: the
  loop closes the ring itself, from the last vertex back to the first. This holds for
  every ring that has a vertex, so for the rings of three vertices and more.
\<close>

theorem pointInRing_closed:
  assumes "ring \<noteq> []"
  shows "pointInRing pt (Arr (ring @ [ring ! 0])) = pointInRing pt (Arr ring)"
proof -
  from assms obtain v vs where r: "ring = v # vs" by (cases ring) auto
  have "pointInRing pt (Arr (ring @ [ring ! 0])) = chain pt v (ring @ [v])"
    using pointInRing_chain[of "ring @ [ring ! 0]" pt] by (simp add: r)
  also have "\<dots> = (chain pt v ring \<noteq> chain pt (last (v # ring)) [v])"
    by (rule chain_append)
  also have "\<dots> = (chain pt v ring \<noteq> intersect pt v (last ring))"
    using assms by simp
  also have "\<dots> = (chain pt v vs \<noteq> intersect pt v (last ring))"
    by (simp add: r intersect_same)
  also have "\<dots> = chain pt (last ring) ring"
    by (subst (2) r) auto
  finally show ?thesis by (simp only: pointInRing_chain[OF assms])
qed

theorem pointInRing_closed_witness:
  "pointInRing (5, 5) (Arr [Pos 0 0, Pos 0 10, Pos 10 10, Pos 10 0, Pos 0 0])
   = pointInRing (5, 5) (Arr [Pos 0 0, Pos 0 10, Pos 10 10, Pos 10 0])
   \<and> pointInRing (5, 5) (Arr [Pos 0 0, Pos 0 10, Pos 10 10, Pos 10 0, Pos 0 0])"
proof -
  have a: "pointInRing (5, 5) (Arr [Pos 0 0, Pos 0 10, Pos 10 10, Pos 10 0, Pos 0 0])
     = pointInRing (5, 5) (Arr [Pos 0 0, Pos 0 10, Pos 10 10, Pos 10 0])"
    using pointInRing_closed [of "[Pos 0 0, Pos 0 10, Pos 10 10, Pos 10 0]" "(5, 5)"] by simp
  have "pointInRing (5, 5) (Arr [Pos 0 0, Pos 0 10, Pos 10 10, Pos 10 0])"
    by (simp add: ray_eval)
  with a show ?thesis by simp
qed

lemma intersect_exact_total: "intersect_exact pt vi vj \<noteq> None"
  by (auto simp: intersect_exact_def Let_def js_gt_def js_sub_def split: option.splits)

lemma intersect_exact_position:
  "is_position vi \<Longrightarrow> is_position vj \<Longrightarrow> intersect_exact pt vi vj = Some (intersect pt vi vj)"
  by (cases vi; cases vj)
     (auto simp: intersect_exact_def intersect_def Let_def js_gt_def js_sub_def js_or_def)

lemma exact_loop_total: "pointInRing_exact_loop pt ring i j inside \<noteq> None"
proof (induction pt ring i j inside rule: pointInRing_exact_loop.induct)
  case (1 pt ring i j inside)
  show ?case
  proof (cases "i < length ring")
    case True
    obtain c where c: "intersect_exact pt (ring ! i) (ring ! j) = Some c"
      using intersect_exact_total[of pt "ring ! i" "ring ! j"] by auto
    from "1.IH"[OF True c] True c show ?thesis
      by (subst pointInRing_exact_loop.simps) simp
  next
    case False
    then show ?thesis by (subst pointInRing_exact_loop.simps) simp
  qed
qed

lemma exact_loop_eq:
  "\<forall>v\<in>set ring. is_position v \<Longrightarrow> j < length ring \<Longrightarrow>
   pointInRing_exact_loop pt ring i j inside = Some (pointInRing_loop pt ring i j inside)"
proof (induction pt ring i j inside rule: pointInRing_exact_loop.induct)
  case (1 pt ring i j inside)
  show ?case
  proof (cases "i < length ring")
    case True
    with "1.prems"
    have c: "intersect_exact pt (ring ! i) (ring ! j) = Some (intersect pt (ring ! i) (ring ! j))"
      by (intro intersect_exact_position) auto
    from "1.IH"[OF True c "1.prems"(1) True] True c show ?thesis
      by (subst pointInRing_exact_loop.simps, subst pointInRing_loop.simps) simp
  next
    case False
    then show ?thesis
      by (subst pointInRing_exact_loop.simps, subst pointInRing_loop.simps) simp
  qed
qed

text \<open>
  Claim C10. With the denominator \<^verbatim>\<open>yj - yi\<close> unguarded, no point and no ring make the
  loop divide by zero: the quotient is evaluated only across an edge whose ends lie on
  different sides of the ray, and such an edge is not horizontal. On every ring of
  positions the unguarded loop returns what \<^verbatim>\<open>pointInRing\<close> returns.
\<close>

theorem guarded_denominator_exact:
  "pointInRing_exact pt ring \<noteq> None
   \<and> ((\<forall>v\<in>set vs. is_position v)
      \<longrightarrow> pointInRing_exact pt (Arr vs) = Some (pointInRing pt (Arr vs)))"
proof (intro conjI impI)
  show "pointInRing_exact pt ring \<noteq> None"
    by (cases ring) (simp_all add: exact_loop_total)
  assume wf: "\<forall>v\<in>set vs. is_position v"
  show "pointInRing_exact pt (Arr vs) = Some (pointInRing pt (Arr vs))"
  proof (cases "vs = []")
    case True
    then show ?thesis
      by (simp add: pointInRing_exact_loop.simps pointInRing_loop.simps)
  next
    case False
    then have "length vs - 1 < length vs" by simp
    from exact_loop_eq[OF wf this] show ?thesis by simp
  qed
qed

theorem guarded_denominator_exact_witness:
  "pointInRing_exact (5, 5) (Arr [Pos 0 0, Pos 0 10, Pos 10 10, Pos 10 0]) = Some True"
proof -
  have "pointInRing_exact (5, 5) (Arr [Pos 0 0, Pos 0 10, Pos 10 10, Pos 10 0])
      = Some (pointInRing (5, 5) (Arr [Pos 0 0, Pos 0 10, Pos 10 10, Pos 10 0]))"
    using guarded_denominator_exact
      [of "(5, 5)" "Arr []" "[Pos 0 0, Pos 0 10, Pos 10 10, Pos 10 0]"]
    by simp
  then show ?thesis
    by (simp add: ray_eval)
qed


section \<open>Polygons and geometries\<close>

lemma holes_loop_all: "holes_loop pt hs = (\<forall>h\<in>set hs. \<not> pointInRing pt h)"
  by (induction hs) auto

lemma pointInPolygon_rule: "pointInPolygon pt (Some c) = polygon_contains pt c"
  by (cases "(pt, Some c)" rule: pointInPolygon.cases)
     (auto simp: polygon_contains_def holes_loop_all)

text \<open>
  Claim C1. A Polygon contains the point exactly when ring 0 does and no later ring
  does; a MultiPolygon exactly when one of its polygons does by the same rule; a
  geometry of any other kind, a Polygon with an empty list of rings or with no
  coordinates, and no geometry at all give false, and this without an error.
\<close>

theorem pointInGeometry_rule:
  "(gtype g = ''Polygon'' \<and> coordinates g = Some c
      \<longrightarrow> pointInGeometry pt (Some g) = Inr (polygon_contains pt c))
   \<and> (gtype g = ''MultiPolygon'' \<and> coordinates g = Some (Arr polys)
      \<longrightarrow> pointInGeometry pt (Some g) = Inr (\<exists>p\<in>set polys. polygon_contains pt p))
   \<and> (gtype g \<noteq> ''Polygon'' \<and> gtype g \<noteq> ''MultiPolygon''
      \<longrightarrow> pointInGeometry pt (Some g) = Inr False)
   \<and> (gtype g = ''Polygon'' \<and> (coordinates g = None \<or> coordinates g = Some (Arr []))
      \<longrightarrow> pointInGeometry pt (Some g) = Inr False)
   \<and> \<not> polygon_contains pt (Arr [])
   \<and> pointInGeometry pt None = Inr False"
  by (auto simp: pointInGeometry_def pointInPolygon_rule list_ex_iff polygon_contains_def)

text \<open>
  A square with a square hole: a point in the hole, a point between hole and square with
  the square second in a MultiPolygon, and a line.
\<close>

theorem pointInGeometry_rule_witness:
  "pointInGeometry (5, 5) (Some \<lparr>gtype = ''Polygon'', coordinates = Some (Arr
       [Arr [Pos 0 0, Pos 0 10, Pos 10 10, Pos 10 0],
        Arr [Pos 4 4, Pos 4 6, Pos 6 6, Pos 6 4]])\<rparr>) = Inr False
   \<and> pointInGeometry (2, 5) (Some \<lparr>gtype = ''MultiPolygon'', coordinates = Some (Arr
       [Arr [Arr [Pos 20 20, Pos 20 30, Pos 30 30, Pos 30 20]],
        Arr [Arr [Pos 0 0, Pos 0 10, Pos 10 10, Pos 10 0],
             Arr [Pos 4 4, Pos 4 6, Pos 6 6, Pos 6 4]]])\<rparr>) = Inr True
   \<and> pointInGeometry (2, 5) (Some \<lparr>gtype = ''LineString'',
       coordinates = Some (Arr [Pos 0 0, Pos 0 10])\<rparr>) = Inr False"
proof -
  let ?sq = "Arr [Pos 0 0, Pos 0 10, Pos 10 10, Pos 10 0]"
  let ?hole = "Arr [Pos 4 4, Pos 4 6, Pos 6 6, Pos 6 4]"
  let ?far = "Arr [Pos 20 20, Pos 20 30, Pos 30 30, Pos 30 20]"
  let ?g1 = "\<lparr>gtype = ''Polygon'', coordinates = Some (Arr [?sq, ?hole])\<rparr>"
  let ?g2 = "\<lparr>gtype = ''MultiPolygon'',
              coordinates = Some (Arr [Arr [?far], Arr [?sq, ?hole]])\<rparr>"
  let ?g3 = "\<lparr>gtype = ''LineString'', coordinates = Some (Arr [Pos 0 0, Pos 0 10])\<rparr>"
  have h: "pointInRing (5, 5) ?hole" by (simp add: ray_eval)
  have s: "pointInRing (2, 5) ?sq" by (simp add: ray_eval)
  have nh: "\<not> pointInRing (2, 5) ?hole" by (simp add: ray_eval)
  have a: "pointInGeometry (5, 5) (Some ?g1) = Inr (polygon_contains (5, 5) (Arr [?sq, ?hole]))"
    using pointInGeometry_rule [of ?g1 "Arr [?sq, ?hole]" "(5, 5)"] by simp
  have b: "pointInGeometry (2, 5) (Some ?g2)
         = Inr (\<exists>p\<in>set [Arr [?far], Arr [?sq, ?hole]]. polygon_contains (2, 5) p)"
    using pointInGeometry_rule [of ?g2 _ "(2, 5)" "[Arr [?far], Arr [?sq, ?hole]]"] by simp
  have c: "pointInGeometry (2, 5) (Some ?g3) = Inr False"
    using pointInGeometry_rule [of ?g3 _ "(2, 5)"] by simp
  show ?thesis
    unfolding a b c using h s nh by (simp add: polygon_contains_def)
qed


section \<open>The search of the index\<close>

lemmas geo_eval = outside_def bboxOfCoords_def pointInGeometry_def latLngToPoint_def

lemma pointInGeometry_coords:
  "coordinates g \<noteq> None \<Longrightarrow> \<exists>b. pointInGeometry pt (Some g) = Inr b"
  by (auto simp: pointInGeometry_def split: option.splits coords.splits)

text \<open>
  The loop stops at the first feature that makes it throw or that the point hits, and
  returns none when there is no such feature.
\<close>

lemma findParcel_loop_find:
  "findParcel_loop pt fs =
     (case List.find (\<lambda>f. raises f \<or> hit pt f) fs of
        None \<Rightarrow> Inr None
      | Some f \<Rightarrow> if raises f then Inl TypeError else Inr (Some f))"
proof (induction fs)
  case Nil
  show ?case by simp
next
  case (Cons f fs)
  show ?case
  proof (cases "geometry f")
    case None
    with Cons show ?thesis by (simp add: raises_def hit_def)
  next
    case (Some g)
    show ?thesis
    proof (cases "coordinates g")
      case None
      with Some show ?thesis by (simp add: raises_def bboxOfCoords_def)
    next
      case (Some c)
      then obtain b where b: "pointInGeometry pt (Some g) = Inr b"
        using pointInGeometry_coords[of g pt] by auto
      from Some \<open>geometry f = Some g\<close> b Cons show ?thesis
        by (simp add: raises_def hit_def bboxOfCoords_def)
    qed
  qed
qed






text \<open>
  Where every geometry that is there has coordinates, the search returns; with an empty
  index, or before the load, it returns none; and the snap returns none for a layer with
  neither a position nor bounds, and whenever it is switched off.
\<close>

lemma findParcel_returns:
  assumes "\<forall>f\<in>set (cadastralFeatures st). \<not> raises f"
  shows "\<exists>r. findParcelFeatureAtLatLng st ll = Inr r"
proof -
  have "\<And>f. List.find (\<lambda>f. raises f \<or> hit (latLngToPoint ll) f) (cadastralFeatures st) = Some f
      \<Longrightarrow> \<not> raises f"
    using assms by (auto simp: find_Some_iff)
  then show ?thesis
    by (auto simp: findParcelFeatureAtLatLng_def findParcel_loop_find split: option.splits)
qed

lemma findParcel_empty:
  "cadastralFeatures st = [] \<or> \<not> cadastralLoaded st \<Longrightarrow> findParcelFeatureAtLatLng st ll = Inr None"
  by (auto simp: findParcelFeatureAtLatLng_def)

lemma resolve_no_centroid:
  "getLatLng layer = None \<Longrightarrow> getBoundsCenter layer = None \<Longrightarrow> resolve st layer = Inr None"
  by (simp add: resolve_def layerCentroidLatLng_def)

lemma resolve_snap_off: "\<not> snapEnabled st \<Longrightarrow> resolve st layer = Inr None"
  by (simp add: resolve_def)

lemma load_features:
  "cadastralFeatures (loadCadastralOverlay features st) =
     map (\<lambda>(i, f). f\<lparr>properties := Some ((props_of f)(''__pid'' \<mapsto> JStr (getParcelId f i)))\<rparr>)
       (enumerate 0 features)"
  "cadastralLoaded (loadCadastralOverlay features st)"
  "snapEnabled (loadCadastralOverlay features st) = snapEnabled st"
  by (simp_all add: loadCadastralOverlay_def)


lemma hit_properties [simp]: "hit pt (f\<lparr>properties := p\<rparr>) = hit pt f"
  by (simp add: hit_def)

lemma raises_properties [simp]: "raises (f\<lparr>properties := p\<rparr>) = raises f"
  by (simp add: raises_def)




section \<open>The snap\<close>




























text \<open>
  Claim C3 says that the search and the snap never throw. A GeometryCollection is a
  geometry without \<^verbatim>\<open>coordinates\<close>: the box is computed before its kind is looked at, so
  \<^verbatim>\<open>walk(undefined)\<close> throws for every point asked about, and the snap throws with it.
\<close>

theorem findParcel_raises_without_coordinates:
  "findParcelFeatureAtLatLng
     (loadCadastralOverlay
        [\<lparr>fid = JStr ''G'', properties = None,
          geometry = Some \<lparr>gtype = ''GeometryCollection'', coordinates = None\<rparr>\<rparr>]
        initial_state) ll = Inl TypeError
   \<and> resolve
     (loadCadastralOverlay
        [\<lparr>fid = JStr ''G'', properties = None,
          geometry = Some \<lparr>gtype = ''GeometryCollection'', coordinates = None\<rparr>\<rparr>]
        (initial_state\<lparr>snapEnabled := True\<rparr>))
     \<lparr>getLatLng = Some ll, getBoundsCenter = None\<rparr> = Inl TypeError"
  by (simp add: findParcelFeatureAtLatLng_def resolve_def layerCentroidLatLng_def load_features
      enumerate_eq_zip bboxOfCoords_def)

text \<open>The same at the point (5, 5).\<close>

theorem findParcel_raises_without_coordinates_witness:
  "findParcelFeatureAtLatLng
     (loadCadastralOverlay
        [\<lparr>fid = JStr ''G'', properties = None,
          geometry = Some \<lparr>gtype = ''GeometryCollection'', coordinates = None\<rparr>\<rparr>]
        initial_state) \<lparr>lat = 5, lng = 5\<rparr> = Inl TypeError"
  using findParcel_raises_without_coordinates [of "\<lparr>lat = 5, lng = 5\<rparr>"] by simp


section \<open>The box test\<close>























text \<open>
  In exact arithmetic the abscissa of an edge with its ends on different sides of the
  ray is a mean of the abscissas of the two ends. An edge for which the computed abscissa
  is the exact one is within its ends.
\<close>

lemma exact_abscissa_within:
  fixes y xi yi xj yj :: real
  assumes "(yi > y) \<noteq> (yj > y)"
  shows "min xi xj \<le> (xj - xi) * (y - yi) / (yj - yi) + xi"
    and "(xj - xi) * (y - yi) / (yj - yi) + xi \<le> max xi xj"
proof -
  define t where "t = (y - yi) / (yj - yi)"
  from assms consider "yj \<le> y" "y < yi" | "yi \<le> y" "y < yj" by linarith
  then have t0: "0 \<le> t"
    unfolding t_def by cases (simp_all add: zero_le_divide_iff)
  from assms consider "yj \<le> y" "y < yi" | "yi \<le> y" "y < yj" by linarith
  then have t1: "t \<le> 1"
    unfolding t_def by cases (simp_all add: divide_le_eq)
  have "(xj - xi) * s + xi = (1 - s) * xi + s * xj" for s :: real
    by (simp add: algebra_simps)
  from this[of t] have e: "(xj - xi) * (y - yi) / (yj - yi) + xi = (1 - t) * xi + t * xj"
    unfolding t_def by simp
  have "(1 - t) * min xi xj \<le> (1 - t) * xi" "t * min xi xj \<le> t * xj"
    using t0 t1 by (simp_all add: mult_left_mono)
  then have "(1 - t) * min xi xj + t * min xi xj \<le> (1 - t) * xi + t * xj" by linarith
  then show "min xi xj \<le> (xj - xi) * (y - yi) / (yj - yi) + xi"
    unfolding e by (simp add: algebra_simps)
  have "(1 - t) * xi \<le> (1 - t) * max xi xj" "t * xj \<le> t * max xi xj"
    using t0 t1 by (simp_all add: mult_left_mono)
  then have "(1 - t) * xi + t * xj \<le> (1 - t) * max xi xj + t * max xi xj" by linarith
  then show "(xj - xi) * (y - yi) / (yj - yi) + xi \<le> max xi xj"
    unfolding e by (simp add: algebra_simps)
qed

lemma within_edge_exact:
  assumes "(b > snd pt) \<noteq> (d > snd pt)"
    and "abscissa pt (Pos a b) (Pos c d) = Some ((c - a) * (snd pt - b) / (d - b) + a)"
  shows "within_edge pt (Pos a b) (Pos c d)"
  using exact_abscissa_within[OF assms(1), where xi = a and xj = c] assms(2)
  by (simp add: within_edge_def)



text \<open>
  The depth is needed. Where an element of a ring is an array of two empty arrays, the
  walk of the box finds no position in it, and the ray casting reads it as the position
  (0, 0): the point (3, 4) is outside the box of the ring and inside the ring.
\<close>

lemma skip_needs_proper_depth:
  "findParcel_loop (3, 4)
     [\<lparr>fid = JStr ''N'', properties = None, geometry = Some \<lparr>gtype = ''Polygon'',
        coordinates = Some (Arr [Arr [Pos 5 10, Arr [Arr [], Arr []], Pos 10 5, Pos 10 10]])\<rparr>\<rparr>]
     = Inr None
   \<and> findParcel_noskip_loop (3, 4)
     [\<lparr>fid = JStr ''N'', properties = None, geometry = Some \<lparr>gtype = ''Polygon'',
        coordinates = Some (Arr [Arr [Pos 5 10, Arr [Arr [], Arr []], Pos 10 5, Pos 10 10]])\<rparr>\<rparr>]
     \<noteq> Inr None"
  by (simp add: geo_eval ray_eval)




end
